theory Spec2Isabelle
  imports Complex_Main "HOL-Library.Multiset" "HOL-Library.AList"
begin

section \<open>Hybrid retrieval and reranking (GeoRAG): data model\<close>

text \<open>
  The development embeds \<^verbatim>\<open>app/services/retriever.py\<close> (class \<^verbatim>\<open>HybridRetriever\<close>),
  the part of \<^verbatim>\<open>app/services/vector_store.py\<close> it calls (\<^verbatim>\<open>VectorStore.search\<close>) and the
  request models of \<^verbatim>\<open>app/models/request.py\<close>.

  Conventions of the embedding.
  \<^item> Python numbers (\<^verbatim>\<open>int\<close> and \<^verbatim>\<open>float\<close>, mixed freely by the code) are real numbers:
    rounding of IEEE doubles is not modelled.
  \<^item> A raised exception is a value \<open>Inl e\<close> of the result type \<open>py_error + 'a\<close>.
  \<^item> A dict of results is a record; an optional entry (\<^verbatim>\<open>None\<close>) is an \<open>option\<close>.
  \<^item> Python truthiness is written out where the code relies on it: \<^verbatim>\<open>None\<close>, \<^verbatim>\<open>0\<close>,
    \<^verbatim>\<open>0.0\<close> and the empty string are false; a model instance and a non-empty dict are true.
\<close>

datatype py_error =
    TypeError
  | ZeroDivisionError
  | AttributeError
  | ValidationError
  | Exception string

text \<open>\<^verbatim>\<open>GeoFilter\<close>: \<^verbatim>\<open>lat: float\<close>, \<^verbatim>\<open>lon: float\<close>, \<^verbatim>\<open>radius_km: Optional[float] = 10\<close>,
  \<^verbatim>\<open>address: Optional[str]\<close>.\<close>

record geo_filter =
  lat :: real
  lon :: real
  radius_km :: "real option"
  address :: "string option"

text \<open>\<^verbatim>\<open>TimeFilter\<close>: \<^verbatim>\<open>start\<close> and \<^verbatim>\<open>end\<close> are \<^verbatim>\<open>Union[int, str]\<close>.\<close>

datatype time_value = TInt int | TStr string

record time_filter =
  tf_start :: time_value
  tf_end :: time_value
  precision :: "string option"
  tf_display_time :: "string option"

record query_intent =
  original_query :: string
  semantic_query :: string
  intent_type :: string
  keywords_q :: "string list"
  category :: "string option"
  geo_filter :: "geo_filter option"
  time_filter :: "time_filter option"
  embedding :: "real list option"

text \<open>
  A result dict \<^verbatim>\<open>{"id", "score", "payload"}\<close>. The payload is the one written by
  \<^verbatim>\<open>VectorStore.insert\<close> and by the formatting loop of \<^verbatim>\<open>_db_retrieval\<close>: both always
  store \<^verbatim>\<open>entry_id\<close>, \<^verbatim>\<open>geo_point\<close>, \<^verbatim>\<open>start_time\<close> and \<^verbatim>\<open>end_time\<close>.
  \<^verbatim>\<open>geo_point\<close> is either \<^verbatim>\<open>None\<close> or a dict with the keys \<^verbatim>\<open>lat\<close> and \<^verbatim>\<open>lon\<close>, whose
  values may themselves be \<^verbatim>\<open>None\<close> (see \<open>format_row\<close> below).
\<close>

record geo_point =
  gp_lat :: "real option"
  gp_lon :: "real option"

record metadata =
  source :: "string option"
  confidence :: "real option"
  display_time :: "string option"

record payload =
  entry_id :: string
  title :: string
  content :: "string option"
  p_category :: "string list option"
  tags :: "string list option"
  geo_point :: "geo_point option"
  start_time :: "real option"
  end_time :: "real option"
  p_metadata :: metadata

record candidate =
  res_id :: string
  score :: real
  payload :: payload

section \<open>Rerank\<close>

text \<open>\<^verbatim>\<open>self.alpha = 0.6\<close>, \<^verbatim>\<open>self.beta = 0.3\<close>, \<^verbatim>\<open>self.gamma = 0.1\<close>.\<close>

definition alpha :: real where "alpha = 0.6"
definition beta :: real where "beta = 0.3"
definition gamma :: real where "gamma = 0.1"

text \<open>Line 155: \<^verbatim>\<open>semantic_score = res["score"] if res["score"] > 0 else 0.5\<close>.\<close>

definition semantic_score :: "candidate \<Rightarrow> real" where
  "semantic_score res = (if score res > 0 then score res else 0.5)"

text \<open>Line 165: the distance between the query centre and a point, in kilometres.\<close>

definition distance_km :: "real \<Rightarrow> real \<Rightarrow> real \<Rightarrow> real \<Rightarrow> real" where
  "distance_km query_lat query_lon res_lat res_lon =
     \<bar>query_lat - res_lat\<bar> * 111 + \<bar>query_lon - res_lon\<bar> * 111"

text \<open>
  Lines 158 to 168. The guard \<^verbatim>\<open>query_intent.geo_filter and res["payload"]["geo_point"]\<close>
  holds when the filter is present and \<^verbatim>\<open>geo_point\<close> is a dict (a dict with two keys is
  true whatever its values). Subtracting \<^verbatim>\<open>None\<close> from a float raises \<^verbatim>\<open>TypeError\<close>, and
  so does dividing by \<^verbatim>\<open>None\<close>; dividing by zero raises \<^verbatim>\<open>ZeroDivisionError\<close>.
\<close>

definition geo_score :: "query_intent \<Rightarrow> candidate \<Rightarrow> py_error + real" where
  "geo_score query_intent res =
     (case geo_filter query_intent of
        None \<Rightarrow> Inr 1
      | Some gf \<Rightarrow>
          (case geo_point (payload res) of
             None \<Rightarrow> Inr 1
           | Some gp \<Rightarrow>
               (case gp_lat gp of
                  None \<Rightarrow> Inl TypeError
                | Some res_lat \<Rightarrow>
                    (case gp_lon gp of
                       None \<Rightarrow> Inl TypeError
                     | Some res_lon \<Rightarrow>
                         (case radius_km gf of
                            None \<Rightarrow> Inl TypeError
                          | Some max_distance \<Rightarrow>
                              if max_distance = 0 then Inl ZeroDivisionError
                              else Inr (max 0
                                (1 - distance_km (lat gf) (lon gf) res_lat res_lon
                                       / max_distance)))))))"

text \<open>
  Lines 171 to 185. The guard tests the truth of \<^verbatim>\<open>start_time\<close> and \<^verbatim>\<open>end_time\<close>, so a
  timestamp equal to zero skips the block as \<^verbatim>\<open>None\<close> does. \<^verbatim>\<open>max\<close> and \<^verbatim>\<open>min\<close> of a
  string and a number raise \<^verbatim>\<open>TypeError\<close>.
\<close>

definition time_score :: "query_intent \<Rightarrow> candidate \<Rightarrow> py_error + real" where
  "time_score query_intent res =
     (case time_filter query_intent of
        None \<Rightarrow> Inr 1
      | Some tf \<Rightarrow>
          (case start_time (payload res) of
             None \<Rightarrow> Inr 1
           | Some res_start \<Rightarrow>
               if res_start = 0 then Inr 1
               else
                 (case end_time (payload res) of
                    None \<Rightarrow> Inr 1
                  | Some res_end \<Rightarrow>
                      if res_end = 0 then Inr 1
                      else
                        (case tf_start tf of
                           TStr _ \<Rightarrow> Inl TypeError
                         | TInt query_start \<Rightarrow>
                             (case tf_end tf of
                                TStr _ \<Rightarrow> Inl TypeError
                              | TInt query_end \<Rightarrow>
                                  (let overlap_start = max (real_of_int query_start) res_start;
                                       overlap_end = min (real_of_int query_end) res_end
                                   in if overlap_end \<le> overlap_start then Inr 0
                                      else
                                        (let overlap_duration = overlap_end - overlap_start;
                                             query_duration =
                                               real_of_int query_end - real_of_int query_start
                                         in if query_duration = 0 then Inl ZeroDivisionError
                                            else Inr (overlap_duration / query_duration))))))))"

text \<open>Lines 188 to 192: the weighted sum.\<close>

definition final_score :: "real \<Rightarrow> real \<Rightarrow> real \<Rightarrow> real" where
  "final_score semantic geo time = alpha * semantic + beta * geo + gamma * time"

text \<open>One iteration of the loop of \<^verbatim>\<open>_rerank\<close>: the three sub-scores in the order of the
  source, then \<^verbatim>\<open>res["score"] = final_score\<close>.\<close>

definition rescore :: "query_intent \<Rightarrow> candidate \<Rightarrow> py_error + candidate" where
  "rescore query_intent res =
     (case geo_score query_intent res of
        Inl e \<Rightarrow> Inl e
      | Inr g \<Rightarrow>
          (case time_score query_intent res of
             Inl e \<Rightarrow> Inl e
           | Inr t \<Rightarrow> Inr (res\<lparr>score := final_score (semantic_score res) g t\<rparr>)))"

text \<open>The \<^verbatim>\<open>for res in results\<close> loop; the first exception ends it.\<close>

fun rerank_loop :: "query_intent \<Rightarrow> candidate list \<Rightarrow> py_error + candidate list" where
  "rerank_loop query_intent [] = Inr []"
| "rerank_loop query_intent (res # rest) =
     (case rescore query_intent res of
        Inl e \<Rightarrow> Inl e
      | Inr res' \<Rightarrow>
          (case rerank_loop query_intent rest of
             Inl e \<Rightarrow> Inl e
           | Inr rest' \<Rightarrow> Inr (res' # rest')))"

text \<open>
  Line 196: \<^verbatim>\<open>sorted(results, key=lambda x: x["score"], reverse=True)\<close>. Python's sort is
  stable, also with \<^verbatim>\<open>reverse=True\<close>: entries of equal score keep their order. That is
  the stable ascending sort on the negated score.
\<close>

definition rerank :: "candidate list \<Rightarrow> query_intent \<Rightarrow> py_error + candidate list" where
  "rerank results query_intent =
     (case rerank_loop query_intent results of
        Inl e \<Rightarrow> Inl e
      | Inr scored \<Rightarrow> Inr (sort_key (\<lambda>x. - score x) scored))"

section \<open>Merge\<close>

text \<open>
  \<^verbatim>\<open>_merge_results\<close> fills a dict keyed by \<^verbatim>\<open>res["payload"]["entry_id"]\<close>. A Python dict
  keeps its keys in the order of first insertion, and assigning to a key that is present
  replaces the value where it stands: that is \<open>AList.update\<close> on an association list.
\<close>

text \<open>Lines 140 to 142: every vector result is stored, a later one replacing an earlier
  one of the same \<^verbatim>\<open>entry_id\<close>.\<close>

fun merge_vector :: "(string \<times> candidate) list \<Rightarrow> candidate list \<Rightarrow> (string \<times> candidate) list" where
  "merge_vector merged [] = merged"
| "merge_vector merged (res # rest) =
     merge_vector (AList.update (entry_id (payload res)) res merged) rest"

text \<open>Lines 144 to 147: a database result is stored only under a key that is not there.\<close>

fun merge_db :: "(string \<times> candidate) list \<Rightarrow> candidate list \<Rightarrow> (string \<times> candidate) list" where
  "merge_db merged [] = merged"
| "merge_db merged (res # rest) =
     (if map_of merged (entry_id (payload res)) = None
      then merge_db (AList.update (entry_id (payload res)) res merged) rest
      else merge_db merged rest)"

text \<open>Line 149: \<^verbatim>\<open>list(merged.values())\<close>.\<close>

definition merge_results :: "candidate list \<Rightarrow> candidate list \<Rightarrow> candidate list" where
  "merge_results vector_results db_results =
     map snd (merge_db (merge_vector [] vector_results) db_results)"

section \<open>The vector store\<close>

text \<open>
  The Qdrant library is outside the repository, and what \<^verbatim>\<open>VectorStore.search\<close> uses of it
  is a parameter. The client is a function from the search request to the points found or
  to the exception the client raises; \<^verbatim>\<open>self.client\<close> is \<^verbatim>\<open>None\<close> until \<^verbatim>\<open>connect\<close> has
  run. The model \<^verbatim>\<open>Range\<close> validates its bounds as floats: an integer is always accepted,
  and \<open>range_bound\<close> tells for a string the float it is read as, or \<open>None\<close> when the
  validation rejects it.
\<close>

datatype field_condition =
    GeoRadius real real real
  | TimeRange real real
  | CategoryMatch string

record search_request =
  collection_name :: string
  query_vector :: "real list option"
  query_filter :: "field_condition list option"
  s_limit :: int

type_synonym qdrant_client = "search_request \<Rightarrow> py_error + candidate list"

record vector_store =
  client :: "qdrant_client option"
  range_bound :: "string \<Rightarrow> real option"

text \<open>The \<^verbatim>\<open>geo_filter\<close> dict built by \<^verbatim>\<open>_vector_retrieval\<close> (lines 37 to 43) and the
  \<^verbatim>\<open>time_filter\<close> dict (lines 45 to 50).\<close>

record geo_filter_dict =
  d_lat :: real
  d_lon :: real
  d_radius_km :: "real option"

record time_filter_dict =
  d_start :: time_value
  d_end :: time_value

text \<open>Lines 104 to 116 of \<^verbatim>\<open>vector_store.py\<close>; \<^verbatim>\<open>None * 1000\<close> raises \<^verbatim>\<open>TypeError\<close>.\<close>

definition geo_conditions :: "geo_filter_dict option \<Rightarrow> py_error + field_condition list" where
  "geo_conditions geo_filter_d =
     (case geo_filter_d of
        None \<Rightarrow> Inr []
      | Some g \<Rightarrow>
          (case d_radius_km g of
             None \<Rightarrow> Inl TypeError
           | Some r \<Rightarrow> Inr [GeoRadius (d_lat g) (d_lon g) (r * 1000)]))"

text \<open>A bound of \<^verbatim>\<open>Range(gte=..., lte=...)\<close> as the float the model stores.\<close>

definition validate_bound :: "(string \<Rightarrow> real option) \<Rightarrow> time_value \<Rightarrow> real option" where
  "validate_bound read v = (case v of TInt i \<Rightarrow> Some (real_of_int i) | TStr s \<Rightarrow> read s)"

text \<open>Lines 118 to 127 of \<^verbatim>\<open>vector_store.py\<close>; a bound that \<^verbatim>\<open>Range\<close> rejects raises its
  validation error, before the client is called.\<close>

definition time_conditions ::
  "(string \<Rightarrow> real option) \<Rightarrow> time_filter_dict option \<Rightarrow> py_error + field_condition list" where
  "time_conditions read time_filter_d =
     (case time_filter_d of
        None \<Rightarrow> Inr []
      | Some t \<Rightarrow>
          (case validate_bound read (d_start t) of
             None \<Rightarrow> Inl ValidationError
           | Some gte \<Rightarrow>
               (case validate_bound read (d_end t) of
                  None \<Rightarrow> Inl ValidationError
                | Some lte \<Rightarrow> Inr [TimeRange gte lte])))"

text \<open>Line 129: \<^verbatim>\<open>if category_filter\<close> is false for \<^verbatim>\<open>None\<close> and for the empty string.\<close>

definition category_conditions :: "string option \<Rightarrow> field_condition list" where
  "category_conditions category_filter =
     (case category_filter of
        None \<Rightarrow> []
      | Some c \<Rightarrow> if c = [] then [] else [CategoryMatch c])"

text \<open>
  \<^verbatim>\<open>VectorStore.search\<close>, lines 98 to 155. The result of the client is returned entry by
  entry as \<^verbatim>\<open>{"id", "score", "payload"}\<close>; an exception of the client is not caught.
\<close>

definition search ::
  "vector_store \<Rightarrow> real list option \<Rightarrow> geo_filter_dict option \<Rightarrow> time_filter_dict option
     \<Rightarrow> string option \<Rightarrow> int \<Rightarrow> py_error + candidate list" where
  "search self qv geo_filter_d time_filter_d category_filter limit =
     (case client self of
        None \<Rightarrow> Inl (Exception ''Qdrant client not connected'')
      | Some c \<Rightarrow>
          (case geo_conditions geo_filter_d of
             Inl e \<Rightarrow> Inl e
           | Inr gc \<Rightarrow>
               (case time_conditions (range_bound self) time_filter_d of
                  Inl e \<Rightarrow> Inl e
                | Inr tc \<Rightarrow>
                    (let filter_conditions = gc @ tc @ category_conditions category_filter;
                         search_filter =
                           (if filter_conditions = [] then None else Some filter_conditions)
                     in c \<lparr>collection_name = ''spatiotemporal_knowledge'',
                            query_vector = qv,
                            query_filter = search_filter,
                            s_limit = limit\<rparr>))))"

text \<open>\<^verbatim>\<open>_vector_retrieval\<close>, lines 34 to 58.\<close>

definition vector_retrieval :: "vector_store \<Rightarrow> query_intent \<Rightarrow> int \<Rightarrow> py_error + candidate list" where
  "vector_retrieval vs query_intent limit =
     (let geo_filter_d =
            (case geo_filter query_intent of
               None \<Rightarrow> None
             | Some g \<Rightarrow> Some \<lparr>d_lat = lat g, d_lon = lon g, d_radius_km = radius_km g\<rparr>);
          time_filter_d =
            (case time_filter query_intent of
               None \<Rightarrow> None
             | Some t \<Rightarrow> Some \<lparr>d_start = tf_start t, d_end = tf_end t\<rparr>)
      in search vs (embedding query_intent) geo_filter_d time_filter_d (category query_intent)
           limit)"

section \<open>The structured store\<close>

text \<open>
  The rows of the three joined tables of \<^verbatim>\<open>app/services/database.py\<close>, with the columns
  that \<^verbatim>\<open>_db_retrieval\<close> reads. A point geometry is its pair of coordinates \<open>(x, y)\<close>,
  longitude first; a \<^verbatim>\<open>datetime\<close> is seen through \<^verbatim>\<open>timestamp()\<close> and \<^verbatim>\<open>year\<close>.
\<close>

record knowledge_entry =
  ke_id :: string
  ke_title :: string
  ke_content :: "string option"
  ke_category :: "string list option"
  ke_tags :: "string list option"
  ke_source :: "string option"
  ke_confidence :: "real option"

record geo_location =
  geom :: "(real \<times> real) option"

record datetime =
  timestamp :: real
  year :: nat

record temporal_info =
  ti_start_time :: "datetime option"
  ti_end_time :: "datetime option"
  dynasty :: "string option"

type_synonym row = "knowledge_entry \<times> geo_location option \<times> temporal_info option"

text \<open>The statement built in lines 65 to 103: the three optional conditions and the limit.
  The geographic condition holds longitude, latitude and the radius in metres.\<close>

record db_query =
  where_geo :: "(real \<times> real \<times> real) option"
  where_time :: "(time_value \<times> time_value) option"
  where_category :: "string option"
  q_limit :: int

type_synonym db_session = "db_query \<Rightarrow> py_error + row list"

text \<open>\<^verbatim>\<open>str\<close> of a year, in decimal.\<close>

fun str_nat :: "nat \<Rightarrow> string" where
  "str_nat n =
     (if n < 10 then [char_of (48 + n)]
      else str_nat (n div 10) @ [char_of (48 + n mod 10)])"

text \<open>
  Lines 127 and 128: the label is built when \<^verbatim>\<open>temporal and temporal.dynasty\<close> is true
  (a record with a non-empty dynasty); \<^verbatim>\<open>.year\<close> of a missing \<^verbatim>\<open>start_time\<close> or
  \<^verbatim>\<open>end_time\<close> raises \<^verbatim>\<open>AttributeError\<close>.
\<close>

definition format_display_time :: "temporal_info option \<Rightarrow> py_error + string option" where
  "format_display_time temporal =
     (case temporal of
        None \<Rightarrow> Inr None
      | Some t \<Rightarrow>
          (case dynasty t of
             None \<Rightarrow> Inr None
           | Some d \<Rightarrow>
               if d = [] then Inr None
               else
                 (case ti_start_time t of
                    None \<Rightarrow> Inl AttributeError
                  | Some s \<Rightarrow>
                      (case ti_end_time t of
                         None \<Rightarrow> Inl AttributeError
                       | Some e \<Rightarrow>
                           Inr (Some (d @ ''('' @ str_nat (year s) @ ''-''
                                        @ str_nat (year e) @ '')''))))))"

text \<open>
  Lines 118 to 121: \<^verbatim>\<open>geo_point\<close> is always a dict with the two keys. For a row without
  geo record or without geometry both values are \<^verbatim>\<open>None\<close>. For a row with a geometry the
  value is \<^verbatim>\<open>func.ST_Y(geo.geom).scalar()\<close>: \<^verbatim>\<open>func.ST_Y(...)\<close> builds an SQL expression that
  is never sent to the store, and calling \<^verbatim>\<open>.scalar()\<close> on it raises (an expression has no
  such method in SQLAlchemy 2: \<^verbatim>\<open>AttributeError\<close>). The latitude is evaluated first, so
  that is where the formatting of such a row ends.
\<close>

definition format_geo_point :: "geo_location option \<Rightarrow> py_error + geo_point" where
  "format_geo_point geo =
     (case geo of
        None \<Rightarrow> Inr \<lparr>gp_lat = None, gp_lon = None\<rparr>
      | Some g \<Rightarrow>
          (case geom g of
             None \<Rightarrow> Inr \<lparr>gp_lat = None, gp_lon = None\<rparr>
           | Some p \<Rightarrow> Inl AttributeError))"

text \<open>Lines 122 and 123, for \<^verbatim>\<open>start_time\<close> and for \<^verbatim>\<open>end_time\<close>.\<close>

definition format_time :: "datetime option \<Rightarrow> real option" where
  "format_time t = (case t of None \<Rightarrow> None | Some d \<Rightarrow> Some (timestamp d))"

text \<open>Lines 109 to 131: one row as a result dict, with the score \<^verbatim>\<open>0.0\<close>. The entries of
  the dict are evaluated in the order written: \<^verbatim>\<open>geo_point\<close> before the label of
  \<^verbatim>\<open>metadata\<close>.\<close>

definition format_row :: "row \<Rightarrow> py_error + candidate" where
  "format_row r =
     (case r of (entry, geo, temporal) \<Rightarrow>
        (case format_geo_point geo of
           Inl e \<Rightarrow> Inl e
         | Inr point \<Rightarrow>
             (case format_display_time temporal of
                Inl e \<Rightarrow> Inl e
              | Inr label \<Rightarrow>
                  Inr \<lparr>res_id = ke_id entry,
                       score = 0,
                       payload =
                         \<lparr>entry_id = ke_id entry,
                          title = ke_title entry,
                          content = ke_content entry,
                          p_category = ke_category entry,
                          tags = ke_tags entry,
                          geo_point = Some point,
                          start_time = (case temporal of None \<Rightarrow> None
                                        | Some t \<Rightarrow> format_time (ti_start_time t)),
                          end_time = (case temporal of None \<Rightarrow> None
                                      | Some t \<Rightarrow> format_time (ti_end_time t)),
                          p_metadata =
                            \<lparr>source = ke_source entry,
                             confidence = ke_confidence entry,
                             display_time = label\<rparr>\<rparr>\<rparr>)))"

fun format_rows :: "row list \<Rightarrow> py_error + candidate list" where
  "format_rows [] = Inr []"
| "format_rows (r # rows) =
     (case format_row r of
        Inl e \<Rightarrow> Inl e
      | Inr c \<Rightarrow>
          (case format_rows rows of
             Inl e \<Rightarrow> Inl e
           | Inr cs \<Rightarrow> Inr (c # cs)))"

text \<open>
  \<^verbatim>\<open>_db_retrieval\<close>, lines 60 to 134. The session is a parameter: it answers the statement
  with rows or with an exception. \<^verbatim>\<open>radius_km * 1000\<close> raises \<^verbatim>\<open>TypeError\<close> for a missing
  radius; \<^verbatim>\<open>if query_intent.category\<close> is false for the empty string.
\<close>

definition db_retrieval :: "db_session \<Rightarrow> query_intent \<Rightarrow> int \<Rightarrow> py_error + candidate list" where
  "db_retrieval db query_intent limit =
     (case (case geo_filter query_intent of
              None \<Rightarrow> Inr None
            | Some g \<Rightarrow>
                (case radius_km g of
                   None \<Rightarrow> Inl TypeError
                 | Some r \<Rightarrow> Inr (Some (lon g, lat g, r * 1000)))) of
        Inl e \<Rightarrow> Inl e
      | Inr wg \<Rightarrow>
          (case db \<lparr>where_geo = wg,
                    where_time =
                      (case time_filter query_intent of
                         None \<Rightarrow> None
                       | Some t \<Rightarrow> Some (tf_start t, tf_end t)),
                    where_category =
                      (case category query_intent of
                         None \<Rightarrow> None
                       | Some c \<Rightarrow> if c = [] then None else Some c),
                    q_limit = limit\<rparr> of
             Inl e \<Rightarrow> Inl e
           | Inr rows \<Rightarrow> format_rows rows))"

section \<open>Retrieve\<close>

text \<open>\<^verbatim>\<open>xs[:k]\<close>: the first \<open>k\<close> entries, and for a negative \<open>k\<close> all but the last \<open>-k\<close>.\<close>

definition slice_to :: "'a list \<Rightarrow> int \<Rightarrow> 'a list" where
  "slice_to xs k =
     (if 0 \<le> k then take (nat k) xs else take (nat (int (length xs) + k)) xs)"

text \<open>
  \<^verbatim>\<open>retrieve\<close>, lines 16 to 32. \<^verbatim>\<open>asyncio.gather\<close> awaits both tasks and re-raises the
  first exception of either; which of two failing tasks is reported depends on their
  timing, the model reports the vector task first. No property below depends on it.
\<close>

definition retrieve ::
  "vector_store \<Rightarrow> db_session \<Rightarrow> query_intent \<Rightarrow> int \<Rightarrow> py_error + candidate list" where
  "retrieve vs db query_intent top_k =
     (case vector_retrieval vs query_intent (top_k * 2) of
        Inl e \<Rightarrow> Inl e
      | Inr vector_results \<Rightarrow>
          (case db_retrieval db query_intent (top_k * 2) of
             Inl e \<Rightarrow> Inl e
           | Inr db_results \<Rightarrow>
               (let merged_results = merge_results vector_results db_results
                in if merged_results = [] then Inr []
                   else
                     (case rerank merged_results query_intent of
                        Inl e \<Rightarrow> Inl e
                      | Inr reranked_results \<Rightarrow> Inr (slice_to reranked_results top_k)))))"

section \<open>Concrete inputs\<close>

text \<open>Inputs at which the theorems below are instantiated: an intent without filters, the
  geographic filter of the centre of Beijing with the default radius, a time filter over a
  span of years, a payload without location and times, and an entry of the structured
  store.\<close>

definition example_intent :: query_intent where
  "example_intent =
     \<lparr>original_query = ''q'', semantic_query = ''q'', intent_type = ''fact_query'',
      keywords_q = [], category = None, geo_filter = None, time_filter = None,
      embedding = None\<rparr>"

definition beijing_filter :: geo_filter where
  "beijing_filter = \<lparr>lat = 39.9, lon = 116.4, radius_km = Some 10, address = None\<rparr>"

definition span_filter :: "int \<Rightarrow> int \<Rightarrow> time_filter" where
  "span_filter a b =
     \<lparr>tf_start = TInt a, tf_end = TInt b, precision = Some ''year'', tf_display_time = None\<rparr>"

definition example_payload :: payload where
  "example_payload =
     \<lparr>entry_id = ''e1'', title = ''t'', content = None, p_category = None, tags = None,
      geo_point = None, start_time = None, end_time = None,
      p_metadata = \<lparr>source = None, confidence = None, display_time = None\<rparr>\<rparr>"

definition example_entry :: knowledge_entry where
  "example_entry =
     \<lparr>ke_id = ''e2'', ke_title = ''t'', ke_content = None, ke_category = None,
      ke_tags = None, ke_source = None, ke_confidence = None\<rparr>"

definition centre_candidate :: candidate where
  "centre_candidate =
     \<lparr>res_id = ''p1'', score = 0.8,
      payload = example_payload
        \<lparr>geo_point := Some \<lparr>gp_lat = Some 39.9, gp_lon = Some 116.4\<rparr>\<rparr>\<rparr>"

definition nearby_candidate :: candidate where
  "nearby_candidate =
     \<lparr>res_id = ''p4'', score = 0.8,
      payload = example_payload
        \<lparr>entry_id := ''e4'',
         geo_point := Some \<lparr>gp_lat = Some 39.95, gp_lon = Some 116.4\<rparr>\<rparr>\<rparr>"

definition unscored_candidate :: candidate where
  "unscored_candidate =
     \<lparr>res_id = ''e2'', score = 0, payload = example_payload\<lparr>entry_id := ''e2''\<rparr>\<rparr>"

definition ming_candidate :: candidate where
  "ming_candidate =
     \<lparr>res_id = ''p3'', score = 0.9,
      payload = example_payload
        \<lparr>entry_id := ''e3'', start_time := Some 1368, end_time := Some 1644\<rparr>\<rparr>"

definition epoch_candidate :: candidate where
  "epoch_candidate =
     \<lparr>res_id = ''p5'', score = 0.9,
      payload = example_payload
        \<lparr>entry_id := ''e5'', start_time := Some 0, end_time := Some 200\<rparr>\<rparr>"

definition pre_epoch_candidate :: candidate where
  "pre_epoch_candidate =
     \<lparr>res_id = ''p6'', score = 0.9,
      payload = example_payload
        \<lparr>entry_id := ''e6'', start_time := Some (- 200), end_time := Some 0\<rparr>\<rparr>"


text \<open>A vector result for the entry \<open>e2\<close>, a reading of two strings as floats, a vector
  store whose client answers every request with the same points, a store that was never
  connected, and a session that answers every statement with the same rows.\<close>

definition scored_e2 :: candidate where
  "scored_e2 = \<lparr>res_id = ''p2'', score = 0.9, payload = example_payload\<lparr>entry_id := ''e2''\<rparr>\<rparr>"

definition read_year :: "string \<Rightarrow> real option" where
  "read_year s =
     (if s = ''1500'' then Some 1500 else if s = ''1700'' then Some 1700 else None)"

definition connected_store :: "candidate list \<Rightarrow> vector_store" where
  "connected_store found = \<lparr>client = Some (\<lambda>request. Inr found), range_bound = read_year\<rparr>"

definition disconnected_store :: vector_store where
  "disconnected_store = \<lparr>client = None, range_bound = read_year\<rparr>"

definition session_with :: "row list \<Rightarrow> db_session" where
  "session_with rows = (\<lambda>statement. Inr rows)"

text \<open>A candidate whose interval starts at the epoch and ends before the filter 100 to 200
  begins; a vector result inside the filter 1500 to 1700; and that filter with its bounds
  given as strings, which \<^verbatim>\<open>TimeFilter\<close> declares as \<^verbatim>\<open>Union[int, str]\<close>.\<close>

definition epoch_short_candidate :: candidate where
  "epoch_short_candidate =
     \<lparr>res_id = ''p7'', score = 0.9,
      payload = example_payload
        \<lparr>entry_id := ''e7'', start_time := Some 0, end_time := Some 50\<rparr>\<rparr>"

definition late_ming_candidate :: candidate where
  "late_ming_candidate =
     \<lparr>res_id = ''p8'', score = 0.9,
      payload = example_payload
        \<lparr>entry_id := ''e8'', start_time := Some 1600, end_time := Some 1644\<rparr>\<rparr>"

definition string_span_filter :: time_filter where
  "string_span_filter =
     \<lparr>tf_start = TStr ''1500'', tf_end = TStr ''1700'', precision = Some ''year'',
      tf_display_time = None\<rparr>"


lemmas ex_defs = example_intent_def beijing_filter_def span_filter_def example_payload_def
  example_entry_def centre_candidate_def nearby_candidate_def unscored_candidate_def
  ming_candidate_def epoch_candidate_def pre_epoch_candidate_def epoch_short_candidate_def
  late_ming_candidate_def string_span_filter_def

lemmas score_defs = rerank_def rescore_def geo_score_def time_score_def final_score_def
  semantic_score_def alpha_def beta_def gamma_def distance_km_def

section \<open>The final score\<close>

lemma rescore_Inr:
  "rescore q res = Inr res' \<longleftrightarrow>
     (\<exists>g t. geo_score q res = Inr g \<and> time_score q res = Inr t \<and>
            res' = res\<lparr>score := final_score (semantic_score res) g t\<rparr>)"
  by (auto simp: rescore_def split: sum.splits)

lemma rerank_loop_Inr:
  "rerank_loop q results = Inr scored \<Longrightarrow>
     list_all2 (\<lambda>res res'. rescore q res = Inr res') results scored"
  by (induction results arbitrary: scored) (auto split: sum.splits)

lemma final_score_weights:
  "final_score s g t = 0.6 * s + 0.3 * g + 0.1 * t"
  by (simp add: final_score_def alpha_def beta_def gamma_def)

lemma weighted_sum_bounds:
  fixes s g t :: real
  assumes "0 \<le> s" "s \<le> 1" "0 \<le> g" "g \<le> 1" "0 \<le> t" "t \<le> 1"
  shows "0 \<le> 0.6 * s + 0.3 * g + 0.1 * t" and "0.6 * s + 0.3 * g + 0.1 * t \<le> 1"
  using assms by simp_all

lemma rescore_formula:
  assumes "rescore q res = Inr res'"
  shows "\<exists>g t. geo_score q res = Inr g \<and> time_score q res = Inr t \<and>
               res' = res\<lparr>score := 0.6 * (if score res > 0 then score res else 0.5)
                                      + 0.3 * g + 0.1 * t\<rparr> \<and>
               (0 \<le> (if score res > 0 then score res else 0.5)
                  \<and> (if score res > 0 then score res else 0.5) \<le> 1
                  \<and> 0 \<le> g \<and> g \<le> 1 \<and> 0 \<le> t \<and> t \<le> 1
                \<longrightarrow> 0 \<le> score res' \<and> score res' \<le> 1)"
proof -
  define s where "s = (if score res > 0 then score res else 0.5)"
  from assms obtain g t where gt: "geo_score q res = Inr g" "time_score q res = Inr t"
      "res' = res\<lparr>score := final_score (semantic_score res) g t\<rparr>"
    by (auto simp: rescore_Inr)
  have sem: "semantic_score res = s" by (simp add: semantic_score_def s_def)
  have r': "res' = res\<lparr>score := 0.6 * s + 0.3 * g + 0.1 * t\<rparr>"
    using gt(3) by (simp add: sem final_score_weights)
  have sc: "score res' = 0.6 * s + 0.3 * g + 0.1 * t" unfolding r' by simp
  have "0 \<le> s \<and> s \<le> 1 \<and> 0 \<le> g \<and> g \<le> 1 \<and> 0 \<le> t \<and> t \<le> 1
                \<longrightarrow> 0 \<le> score res' \<and> score res' \<le> 1"
    unfolding sc using weighted_sum_bounds[of s g t] by blast
  with gt(1,2) r' show ?thesis unfolding s_def by blast
qed

text \<open>
  Claim C1. When \<^verbatim>\<open>_rerank\<close> returns, its output is a rearrangement of the list \<open>scored\<close>
  of rescored candidates, which runs parallel to the input: each candidate keeps its
  fields, and the score written into it is
  \<open>0.6 * semantic + 0.3 * geo + 0.1 * time\<close>, where \<open>semantic\<close> is the incoming score when
  that is positive and \<open>0.5\<close> otherwise, and \<open>geo\<close> and \<open>time\<close> are the two sub-scores the
  loop computed for it. When the three sub-scores lie between 0 and 1, so does the score
  written.
\<close>

theorem rerank_final_score:
  assumes "rerank results q = Inr out"
  shows "\<exists>scored.
           mset out = mset scored \<and>
           list_all2 (\<lambda>res res'.
             \<exists>g t. geo_score q res = Inr g \<and> time_score q res = Inr t \<and>
               res' = res\<lparr>score := 0.6 * (if score res > 0 then score res else 0.5)
                                      + 0.3 * g + 0.1 * t\<rparr> \<and>
               (0 \<le> (if score res > 0 then score res else 0.5)
                  \<and> (if score res > 0 then score res else 0.5) \<le> 1
                  \<and> 0 \<le> g \<and> g \<le> 1 \<and> 0 \<le> t \<and> t \<le> 1
                \<longrightarrow> 0 \<le> score res' \<and> score res' \<le> 1))
             results scored"
proof -
  from assms obtain scored where
    loop: "rerank_loop q results = Inr scored" and
    out: "out = sort_key (\<lambda>x. - score x) scored"
    by (auto simp: rerank_def split: sum.splits)
  have "list_all2 (\<lambda>res res'. rescore q res = Inr res') results scored"
    using loop by (rule rerank_loop_Inr)
  then have "list_all2 (\<lambda>res res'.
             \<exists>g t. geo_score q res = Inr g \<and> time_score q res = Inr t \<and>
               res' = res\<lparr>score := 0.6 * (if score res > 0 then score res else 0.5)
                                      + 0.3 * g + 0.1 * t\<rparr> \<and>
               (0 \<le> (if score res > 0 then score res else 0.5)
                  \<and> (if score res > 0 then score res else 0.5) \<le> 1
                  \<and> 0 \<le> g \<and> g \<le> 1 \<and> 0 \<le> t \<and> t \<le> 1
                \<longrightarrow> 0 \<le> score res' \<and> score res' \<le> 1))
             results scored"
    by (rule list_all2_mono) (rule rescore_formula)
  then show ?thesis using out by (intro exI[of _ scored]) simp
qed

theorem rerank_final_score_witness:
  "rerank [unscored_candidate, centre_candidate]
          (example_intent\<lparr>geo_filter := Some beijing_filter\<rparr>)
     = Inr [centre_candidate\<lparr>score := 0.88\<rparr>, unscored_candidate\<lparr>score := 0.7\<rparr>]
   \<and> (\<exists>scored.
         mset [centre_candidate\<lparr>score := 0.88\<rparr>, unscored_candidate\<lparr>score := 0.7\<rparr>]
           = mset scored \<and>
         list_all2 (\<lambda>res res'.
             \<exists>g t. geo_score (example_intent\<lparr>geo_filter := Some beijing_filter\<rparr>) res = Inr g
               \<and> time_score (example_intent\<lparr>geo_filter := Some beijing_filter\<rparr>) res = Inr t \<and>
               res' = res\<lparr>score := 0.6 * (if score res > 0 then score res else 0.5)
                                      + 0.3 * g + 0.1 * t\<rparr> \<and>
               (0 \<le> (if score res > 0 then score res else 0.5)
                  \<and> (if score res > 0 then score res else 0.5) \<le> 1
                  \<and> 0 \<le> g \<and> g \<le> 1 \<and> 0 \<le> t \<and> t \<le> 1
                \<longrightarrow> 0 \<le> score res' \<and> score res' \<le> 1))
             [unscored_candidate, centre_candidate] scored)"
proof -
  have h: "rerank [unscored_candidate, centre_candidate]
          (example_intent\<lparr>geo_filter := Some beijing_filter\<rparr>)
     = Inr [centre_candidate\<lparr>score := 0.88\<rparr>, unscored_candidate\<lparr>score := 0.7\<rparr>]"
    by (simp add: score_defs ex_defs)
  from h rerank_final_score[OF h] show ?thesis by (rule conjI)
qed

section \<open>The geographic sub-score\<close>

text \<open>
  Claim C2. For a candidate whose geo point has both coordinates and a query whose filter
  has a radius \<open>r > 0\<close>, the geographic sub-score is \<open>max 0 (1 - d / r)\<close>, where \<open>d\<close> is
  111 times the difference of the latitudes plus 111 times the difference of the
  longitudes. So it is 1 at distance 0, it is 0 from distance \<open>r\<close> on, and of two
  candidates under the same filter the one at the larger distance never has the larger
  sub-score.
\<close>

theorem geo_score_linear_decay:
  assumes "geo_filter q = Some gf" and "radius_km gf = Some r" and "0 < r"
    and "geo_point (payload res) = Some gp" and "gp_lat gp = Some a" and "gp_lon gp = Some b"
    and "d = \<bar>lat gf - a\<bar> * 111 + \<bar>lon gf - b\<bar> * 111"
  shows "geo_score q res = Inr (max 0 (1 - d / r))
       \<and> (d = 0 \<longrightarrow> geo_score q res = Inr 1)
       \<and> (r \<le> d \<longrightarrow> geo_score q res = Inr 0)
       \<and> (\<forall>(res'::candidate) (gp'::geo_point) a' b'.
             geo_point (payload res') = Some gp' \<and> gp_lat gp' = Some a' \<and> gp_lon gp' = Some b'
             \<and> d \<le> \<bar>lat gf - a'\<bar> * 111 + \<bar>lon gf - b'\<bar> * 111
             \<longrightarrow> (\<exists>g g'. geo_score q res = Inr g \<and> geo_score q res' = Inr g' \<and> g' \<le> g))"
proof -
  have val: "geo_score q res = Inr (max 0 (1 - d / r))"
    using assms by (simp add: geo_score_def distance_km_def)
  have zero: "d = 0 \<longrightarrow> geo_score q res = Inr 1"
    using val by simp
  have far: "r \<le> d \<longrightarrow> geo_score q res = Inr 0"
  proof
    assume "r \<le> d"
    then have "1 \<le> d / r" using \<open>0 < r\<close> by (simp add: le_divide_eq)
    then show "geo_score q res = Inr 0" using val by (simp add: max_def)
  qed
  have mono: "\<forall>(res'::candidate) (gp'::geo_point) a' b'.
             geo_point (payload res') = Some gp' \<and> gp_lat gp' = Some a' \<and> gp_lon gp' = Some b'
             \<and> d \<le> \<bar>lat gf - a'\<bar> * 111 + \<bar>lon gf - b'\<bar> * 111
             \<longrightarrow> (\<exists>g g'. geo_score q res = Inr g \<and> geo_score q res' = Inr g' \<and> g' \<le> g)"
  proof (intro allI impI)
    fix res' :: candidate and gp' :: geo_point and a' b'
    assume h: "geo_point (payload res') = Some gp' \<and> gp_lat gp' = Some a' \<and> gp_lon gp' = Some b'
             \<and> d \<le> \<bar>lat gf - a'\<bar> * 111 + \<bar>lon gf - b'\<bar> * 111"
    define d' where "d' = \<bar>lat gf - a'\<bar> * 111 + \<bar>lon gf - b'\<bar> * 111"
    have val': "geo_score q res' = Inr (max 0 (1 - d' / r))"
      using assms(1-3) h by (simp add: geo_score_def distance_km_def d'_def)
    have "d / r \<le> d' / r" using h \<open>0 < r\<close> by (simp add: d'_def divide_right_mono)
    then have "max 0 (1 - d' / r) \<le> max 0 (1 - d / r)" by (simp add: max_def)
    with val val' show "\<exists>g g'. geo_score q res = Inr g \<and> geo_score q res' = Inr g' \<and> g' \<le> g"
      by blast
  qed
  from val zero far mono show ?thesis by blast
qed

theorem geo_score_linear_decay_witness:
  "geo_filter (example_intent\<lparr>geo_filter := Some beijing_filter\<rparr>) = Some beijing_filter
   \<and> radius_km beijing_filter = Some 10 \<and> (0::real) < 10
   \<and> geo_point (payload centre_candidate) = Some \<lparr>gp_lat = Some 39.9, gp_lon = Some 116.4\<rparr>
   \<and> geo_point (payload nearby_candidate) = Some \<lparr>gp_lat = Some 39.95, gp_lon = Some 116.4\<rparr>
   \<and> geo_score (example_intent\<lparr>geo_filter := Some beijing_filter\<rparr>) centre_candidate
       = Inr 1
   \<and> (\<exists>g g'. geo_score (example_intent\<lparr>geo_filter := Some beijing_filter\<rparr>) centre_candidate
                = Inr g
            \<and> geo_score (example_intent\<lparr>geo_filter := Some beijing_filter\<rparr>) nearby_candidate
                = Inr g'
            \<and> g' \<le> g)"
proof -
  let ?q = "example_intent\<lparr>geo_filter := Some beijing_filter\<rparr>"
  let ?c = "\<lparr>gp_lat = Some (39.9::real), gp_lon = Some (116.4::real)\<rparr>"
  let ?n = "\<lparr>gp_lat = Some (39.95::real), gp_lon = Some (116.4::real)\<rparr>"
  have h1: "geo_filter ?q = Some beijing_filter" by (simp add: ex_defs)
  have h2: "radius_km beijing_filter = Some 10" by (simp add: ex_defs)
  have h3: "(0::real) < 10" by simp
  have h4: "geo_point (payload centre_candidate) = Some ?c" by (simp add: ex_defs)
  have h5: "gp_lat ?c = Some 39.9" by simp
  have h6: "gp_lon ?c = Some 116.4" by simp
  have h7: "(0::real) = \<bar>lat beijing_filter - 39.9\<bar> * 111 + \<bar>lon beijing_filter - 116.4\<bar> * 111"
    by (simp add: ex_defs)
  have n4: "geo_point (payload nearby_candidate) = Some ?n" by (simp add: ex_defs)
  have n7: "(0::real) \<le> \<bar>lat beijing_filter - 39.95\<bar> * 111 + \<bar>lon beijing_filter - 116.4\<bar> * 111"
    by simp
  note t = geo_score_linear_decay[OF h1 h2 h3 h4 h5 h6 h7]
  have one: "geo_score ?q centre_candidate = Inr 1" using t by simp
  have m: "\<exists>g g'. geo_score ?q centre_candidate = Inr g
            \<and> geo_score ?q nearby_candidate = Inr g' \<and> g' \<le> g"
    using t n4 n7 by fastforce
  from h1 h2 h3 h4 n4 one m show ?thesis by blast
qed

section \<open>The temporal sub-score\<close>

text \<open>
  Claim C3. The claim gives the overlap formula for every candidate with a start and an
  end time. The guard of line 172 tests the truth of the two times, and the instant 0 is
  false. The candidate with the interval 0 to 200 under the filter -100 to 100 overlaps
  the filter from 0 to 100, so the claimed sub-score is 100 / 200; the code leaves it at
  1, and \<^verbatim>\<open>_rerank\<close> writes 0.6 * 0.9 + 0.3 + 0.1 * 1 = 0.94. The candidate with the
  interval 0 to 50 is disjoint from the filter 100 to 200, so the claimed sub-score is 0;
  the code leaves it at 1 as well.
\<close>

theorem time_score_epoch_skips_overlap:
  "time_filter (example_intent\<lparr>time_filter := Some (span_filter (- 100) 100)\<rparr>)
     = Some (span_filter (- 100) 100)
   \<and> tf_start (span_filter (- 100) 100) = TInt (- 100)
   \<and> tf_end (span_filter (- 100) 100) = TInt 100
   \<and> (- 100 :: int) \<le> 100
   \<and> start_time (payload epoch_candidate) = Some 0
   \<and> end_time (payload epoch_candidate) = Some 200
   \<and> \<not> min (real_of_int 100) 200 \<le> max (real_of_int (- 100)) 0
   \<and> (min (real_of_int 100) 200 - max (real_of_int (- 100)) 0)
         / (real_of_int 100 - real_of_int (- 100)) = 1 / 2
   \<and> time_score (example_intent\<lparr>time_filter := Some (span_filter (- 100) 100)\<rparr>)
         epoch_candidate = Inr 1
   \<and> start_time (payload epoch_short_candidate) = Some 0
   \<and> end_time (payload epoch_short_candidate) = Some 50
   \<and> min (real_of_int 200) 50 \<le> max (real_of_int 100) 0
   \<and> time_score (example_intent\<lparr>time_filter := Some (span_filter 100 200)\<rparr>)
         epoch_short_candidate = Inr 1
   \<and> rerank [epoch_candidate]
        (example_intent\<lparr>time_filter := Some (span_filter (- 100) 100)\<rparr>)
       = Inr [epoch_candidate\<lparr>score := 0.94\<rparr>]"
  by (simp add: score_defs ex_defs)

text \<open>
  What does hold: when both times are present and neither is the instant 0, and the
  bounds of the filter are integers \<open>qs \<le> qe\<close>, the temporal sub-score is 0 when
  \<open>min qe e \<le> max qs s\<close> and \<open>(min qe e - max qs s) / (qe - qs)\<close> otherwise; the division
  is never by zero.
\<close>

lemma time_score_overlap:
  assumes "time_filter q = Some tf" and "tf_start tf = TInt qs" and "tf_end tf = TInt qe"
    and "qs \<le> qe"
    and "start_time (payload res) = Some s" and "end_time (payload res) = Some e"
    and "s \<noteq> 0" and "e \<noteq> 0"
  shows "time_score q res =
           Inr (if min (real_of_int qe) e \<le> max (real_of_int qs) s then 0
                else (min (real_of_int qe) e - max (real_of_int qs) s)
                       / (real_of_int qe - real_of_int qs))"
proof (cases "min (real_of_int qe) e \<le> max (real_of_int qs) s")
  case True
  then show ?thesis using assms by (simp add: time_score_def Let_def)
next
  case False
  then have "real_of_int qs < real_of_int qe" by (simp add: min_def max_def split: if_splits)
  then have "real_of_int qe - real_of_int qs \<noteq> 0" by simp
  then show ?thesis using False assms by (simp add: time_score_def Let_def)
qed

text \<open>The scenario of the specification: the interval 1368 to 1644 against the filter
  1500 to 1700 gives 144 / 200 = 0.72.\<close>

lemma time_score_overlap_scenario:
  "time_filter (example_intent\<lparr>time_filter := Some (span_filter 1500 1700)\<rparr>)
     = Some (span_filter 1500 1700)
   \<and> tf_start (span_filter 1500 1700) = TInt 1500
   \<and> tf_end (span_filter 1500 1700) = TInt 1700
   \<and> (1500::int) \<le> 1700
   \<and> start_time (payload ming_candidate) = Some 1368
   \<and> end_time (payload ming_candidate) = Some 1644
   \<and> (1368::real) \<noteq> 0 \<and> (1644::real) \<noteq> 0
   \<and> time_score (example_intent\<lparr>time_filter := Some (span_filter 1500 1700)\<rparr>) ming_candidate
       = Inr (144 / 200)
   \<and> (144 / 200 :: real) = 0.72"
proof -
  let ?q = "example_intent\<lparr>time_filter := Some (span_filter 1500 1700)\<rparr>"
  have h1: "time_filter ?q = Some (span_filter 1500 1700)" by (simp add: ex_defs)
  have h2: "tf_start (span_filter 1500 1700) = TInt 1500" by (simp add: ex_defs)
  have h3: "tf_end (span_filter 1500 1700) = TInt 1700" by (simp add: ex_defs)
  have h4: "(1500::int) \<le> 1700" by simp
  have h5: "start_time (payload ming_candidate) = Some 1368" by (simp add: ex_defs)
  have h6: "end_time (payload ming_candidate) = Some 1644" by (simp add: ex_defs)
  have h7: "(1368::real) \<noteq> 0" by simp
  have h8: "(1644::real) \<noteq> 0" by simp
  have v: "time_score ?q ming_candidate = Inr (144 / 200)"
    using time_score_overlap[OF h1 h2 h3 h4 h5 h6 h7 h8] by simp
  have d: "(144 / 200 :: real) = 0.72" by simp
  from h1 h2 h3 h4 h5 h6 h7 h8 v d show ?thesis by blast
qed

text \<open>
  Claim C10. Under a query with a time filter, a candidate whose \<^verbatim>\<open>start_time\<close> or
  \<^verbatim>\<open>end_time\<close> is absent or equal to 0 gets the temporal sub-score 1, the same as the
  candidate with both times removed; the overlap is not computed, whatever the filter.
\<close>

theorem time_score_epoch_neutral:
  assumes "time_filter q = Some tf"
    and "start_time (payload res) = None \<or> start_time (payload res) = Some 0
         \<or> end_time (payload res) = None \<or> end_time (payload res) = Some 0"
  shows "time_score q res = Inr 1
       \<and> time_score q res =
           time_score q (res\<lparr>payload := (payload res)\<lparr>start_time := None, end_time := None\<rparr>\<rparr>)"
  using assms by (auto simp: time_score_def split: option.splits)

theorem time_score_epoch_neutral_witness:
  "time_filter (example_intent\<lparr>time_filter := Some (span_filter (- 100) 100)\<rparr>)
     = Some (span_filter (- 100) 100)
   \<and> end_time (payload pre_epoch_candidate) = Some 0
   \<and> time_score (example_intent\<lparr>time_filter := Some (span_filter (- 100) 100)\<rparr>)
         pre_epoch_candidate = Inr 1"
proof -
  let ?q = "example_intent\<lparr>time_filter := Some (span_filter (- 100) 100)\<rparr>"
  have h1: "time_filter ?q = Some (span_filter (- 100) 100)" by (simp add: ex_defs)
  have h2: "end_time (payload pre_epoch_candidate) = Some 0" by (simp add: ex_defs)
  then have h2': "start_time (payload pre_epoch_candidate) = None
         \<or> start_time (payload pre_epoch_candidate) = Some 0
         \<or> end_time (payload pre_epoch_candidate) = None
         \<or> end_time (payload pre_epoch_candidate) = Some 0" by blast
  have v: "time_score ?q pre_epoch_candidate = Inr 1"
    using time_score_epoch_neutral[OF h1 h2'] by blast
  from h1 h2 v show ?thesis by blast
qed

section \<open>The order of the output\<close>

text \<open>
  Claim C5. When \<^verbatim>\<open>_rerank\<close> returns, its output is sorted by non-increasing score: every
  entry has a score at least that of every later entry, in particular of the next one.
  The output is a function of the input: entries of equal score stand in the order in
  which the loop left them, so the rescored list determines the output completely, and
  equal inputs give equal outputs.
\<close>

theorem rerank_sorted:
  assumes "rerank results q = Inr out"
  shows "sorted_wrt (\<lambda>a b. score a \<ge> score b) out
       \<and> (\<forall>i. Suc i < length out \<longrightarrow> score (out ! i) \<ge> score (out ! Suc i))
       \<and> (\<forall>scored k. rerank_loop q results = Inr scored \<longrightarrow>
             filter (\<lambda>x. score x = k) out = filter (\<lambda>x. score x = k) scored)
       \<and> (\<forall>results' q' out'. results' = results \<and> q' = q \<and> rerank results' q' = Inr out'
             \<longrightarrow> out' = out)"
proof -
  from assms obtain scored where
    loop: "rerank_loop q results = Inr scored" and
    out: "out = sort_key (\<lambda>x. - score x) scored"
    by (auto simp: rerank_def split: sum.splits)
  have "sorted (map (\<lambda>x. - score x) out)" unfolding out by (rule sorted_sort_key)
  then have s1: "sorted_wrt (\<lambda>a b. score a \<ge> score b) out"
    by (simp add: sorted_wrt_map)
  have s2: "\<forall>i. Suc i < length out \<longrightarrow> score (out ! i) \<ge> score (out ! Suc i)"
    using s1 by (auto simp: sorted_wrt_iff_nth_less)
  have s3: "\<forall>scored' k. rerank_loop q results = Inr scored' \<longrightarrow>
             filter (\<lambda>x. score x = k) out = filter (\<lambda>x. score x = k) scored'"
  proof (intro allI impI)
    fix scored' k
    assume "rerank_loop q results = Inr scored'"
    then have "scored' = scored" using loop by simp
    moreover have "filter (\<lambda>x. - score x = - k) (sort_key (\<lambda>x. - score x) scored)
                 = filter (\<lambda>x. - score x = - k) scored"
      by (rule sort_key_stable)
    ultimately show "filter (\<lambda>x. score x = k) out = filter (\<lambda>x. score x = k) scored'"
      using out by simp
  qed
  have s4: "\<forall>results' q' out'. results' = results \<and> q' = q \<and> rerank results' q' = Inr out'
             \<longrightarrow> out' = out"
    using assms by simp
  from s1 s2 s3 s4 show ?thesis by blast
qed

theorem rerank_sorted_witness:
  "rerank [unscored_candidate, nearby_candidate, centre_candidate]
          (example_intent\<lparr>geo_filter := Some beijing_filter\<rparr>)
     = Inr [centre_candidate\<lparr>score := 0.88\<rparr>, nearby_candidate\<lparr>score := 0.7135\<rparr>,
            unscored_candidate\<lparr>score := 0.7\<rparr>]
   \<and> sorted_wrt (\<lambda>a b. score a \<ge> score b)
        [centre_candidate\<lparr>score := 0.88\<rparr>, nearby_candidate\<lparr>score := 0.7135\<rparr>,
         unscored_candidate\<lparr>score := 0.7\<rparr>]"
proof -
  have h: "rerank [unscored_candidate, nearby_candidate, centre_candidate]
          (example_intent\<lparr>geo_filter := Some beijing_filter\<rparr>)
     = Inr [centre_candidate\<lparr>score := 0.88\<rparr>, nearby_candidate\<lparr>score := 0.7135\<rparr>,
            unscored_candidate\<lparr>score := 0.7\<rparr>]"
    by (simp add: score_defs ex_defs)
  from rerank_sorted[OF h] h show ?thesis by blast
qed

section \<open>Candidates without a geo point\<close>






section \<open>Failures of the reranking\<close>


text \<open>
  What does hold. The geographic sub-score is the neutral 1 when the query has no geo
  filter or the candidate's \<^verbatim>\<open>geo_point\<close> is \<^verbatim>\<open>None\<close>, as the vector path stores it for a
  document without location. With integer bounds the temporal block never divides by
  zero and never reads a missing time. So \<^verbatim>\<open>_rerank\<close> returns for every intent with a
  radius other than 0 and integer time bounds, as long as no candidate carries a geo point
  with a missing coordinate under a geo filter.
\<close>

lemma geo_score_neutral:
  "geo_filter q = None \<or> geo_point (payload res) = None \<Longrightarrow> geo_score q res = Inr 1"
  by (auto simp: geo_score_def split: option.splits)

lemma time_score_total:
  assumes "\<forall>tf. time_filter q = Some tf \<longrightarrow> (\<exists>a b. tf_start tf = TInt a \<and> tf_end tf = TInt b)"
  shows "\<exists>t. time_score q res = Inr t"
proof (cases "time_filter q")
  case None
  then show ?thesis by (simp add: time_score_def)
next
  case (Some tf)
  with assms obtain a b where ab: "tf_start tf = TInt a" "tf_end tf = TInt b" by blast
  have nz: "\<And>s e. \<not> min (real_of_int b) e \<le> max (real_of_int a) s
              \<Longrightarrow> real_of_int b - real_of_int a \<noteq> 0"
    by (simp add: min_def max_def split: if_splits)
  show ?thesis using Some ab nz
    by (auto simp: time_score_def Let_def split: option.splits)
qed

lemma geo_score_total:
  assumes "\<forall>gf. geo_filter q = Some gf \<longrightarrow> (\<exists>r. radius_km gf = Some r \<and> r \<noteq> 0)"
    and "\<forall>gp. geo_filter q \<noteq> None \<and> geo_point (payload res) = Some gp
           \<longrightarrow> gp_lat gp \<noteq> None \<and> gp_lon gp \<noteq> None"
  shows "\<exists>g. geo_score q res = Inr g"
  using assms by (fastforce simp: geo_score_def split: option.splits)

lemma rerank_total:
  assumes "\<forall>gf. geo_filter q = Some gf \<longrightarrow> (\<exists>r. radius_km gf = Some r \<and> r \<noteq> 0)"
    and "\<forall>tf. time_filter q = Some tf \<longrightarrow> (\<exists>a b. tf_start tf = TInt a \<and> tf_end tf = TInt b)"
    and "\<forall>res \<in> set results. \<forall>gp. geo_filter q \<noteq> None \<and> geo_point (payload res) = Some gp
           \<longrightarrow> gp_lat gp \<noteq> None \<and> gp_lon gp \<noteq> None"
  shows "\<exists>out. rerank results q = Inr out"
proof -
  have "\<exists>scored. rerank_loop q results = Inr scored"
    using assms(3)
  proof (induction results)
    case Nil
    then show ?case by simp
  next
    case (Cons res rest)
    obtain g where g: "geo_score q res = Inr g"
      using geo_score_total[OF assms(1), of res] Cons.prems by auto
    obtain t where t: "time_score q res = Inr t"
      using time_score_total[OF assms(2), of res] by auto
    obtain scored where "rerank_loop q rest = Inr scored"
      using Cons.IH Cons.prems by auto
    then show ?case using g t by (simp add: rescore_def)
  qed
  then show ?thesis by (auto simp: rerank_def)
qed

section \<open>The merged list\<close>

text \<open>The dict of \<^verbatim>\<open>_merge_results\<close> keeps two invariants: its keys are distinct, and
  every value is stored under its own \<^verbatim>\<open>entry_id\<close>.\<close>

lemma keyed_update:
  assumes "\<forall>(k, r) \<in> set al. entry_id (payload r) = k"
  shows "\<forall>(k, r) \<in> set (AList.update (entry_id (payload v)) v al). entry_id (payload r) = k"
  using assms by (induction al) auto

lemma length_update_le: "length (AList.update k v al) \<le> Suc (length al)"
  by (induction al) auto

lemma merge_vector_inv:
  assumes "distinct (map fst al)" and "\<forall>(k, r) \<in> set al. entry_id (payload r) = k"
  shows "distinct (map fst (merge_vector al vr))
       \<and> (\<forall>(k, r) \<in> set (merge_vector al vr). entry_id (payload r) = k)
       \<and> length (merge_vector al vr) \<le> length al + length vr"
  using assms
proof (induction vr arbitrary: al)
  case Nil
  then show ?case by simp
next
  case (Cons v vr)
  let ?al' = "AList.update (entry_id (payload v)) v al"
  have d: "distinct (map fst ?al')" using Cons.prems(1) by (simp add: distinct_update)
  have k: "\<forall>(k, r) \<in> set ?al'. entry_id (payload r) = k"
    using Cons.prems(2) by (rule keyed_update)
  have l: "length ?al' \<le> Suc (length al)" by (rule length_update_le)
  from Cons.IH[OF d k] l show ?case by auto
qed

lemma merge_vector_map_of:
  "map_of (merge_vector al vr) k =
     (if k \<in> (\<lambda>r. entry_id (payload r)) ` set vr
      then Some (last (filter (\<lambda>v. entry_id (payload v) = k) vr))
      else map_of al k)"
proof (induction vr arbitrary: al)
  case Nil
  then show ?case by simp
next
  case (Cons v vr)
  show ?case
    by (auto simp: Cons.IH update_conv' image_iff filter_empty_conv)
qed

lemma merge_db_inv:
  assumes "distinct (map fst al)" and "\<forall>(k, r) \<in> set al. entry_id (payload r) = k"
  shows "distinct (map fst (merge_db al dr))
       \<and> (\<forall>(k, r) \<in> set (merge_db al dr). entry_id (payload r) = k)
       \<and> length (merge_db al dr) \<le> length al + length dr"
  using assms
proof (induction dr arbitrary: al)
  case Nil
  then show ?case by simp
next
  case (Cons v dr)
  let ?al' = "AList.update (entry_id (payload v)) v al"
  have d: "distinct (map fst ?al')" using Cons.prems(1) by (simp add: distinct_update)
  have k: "\<forall>(k, r) \<in> set ?al'. entry_id (payload r) = k"
    using Cons.prems(2) by (rule keyed_update)
  have l: "length ?al' \<le> Suc (length al)" by (rule length_update_le)
  show ?case
  proof (cases "map_of al (entry_id (payload v)) = None")
    case True
    with Cons.IH[OF d k] l show ?thesis by auto
  next
    case False
    with Cons.IH[OF Cons.prems] show ?thesis by auto
  qed
qed

lemma merge_db_keeps:
  "map_of al k = Some r \<Longrightarrow> map_of (merge_db al dr) k = Some r"
proof (induction dr arbitrary: al)
  case Nil
  then show ?case by simp
next
  case (Cons v dr)
  show ?case
  proof (cases "map_of al (entry_id (payload v)) = None")
    case True
    then have "entry_id (payload v) \<noteq> k" using Cons.prems by auto
    then have "map_of (AList.update (entry_id (payload v)) v al) k = Some r"
      using Cons.prems by (simp add: update_conv')
    from Cons.IH[OF this] True show ?thesis by simp
  next
    case False
    then have "merge_db al (v # dr) = merge_db al dr" by auto
    with Cons.IH[OF Cons.prems] show ?thesis by simp
  qed
qed

lemma keyed_filter:
  assumes "distinct (map fst al)" and "\<forall>(k, r) \<in> set al. entry_id (payload r) = k"
    and "map_of al k = Some r"
  shows "filter (\<lambda>r'. entry_id (payload r') = k) (map snd al) = [r]"
  using assms
proof (induction al)
  case Nil
  then show ?case by simp
next
  case (Cons p al)
  obtain k' r' where p: "p = (k', r')" by (cases p)
  show ?case
  proof (cases "k' = k")
    case True
    then have r: "r' = r" using Cons.prems(3) p by simp
    have "k \<notin> fst ` set al" using Cons.prems(1) p True by auto
    then have "\<forall>x \<in> set al. entry_id (payload (snd x)) \<noteq> k"
      using Cons.prems(2) by force
    then have "filter (\<lambda>r'. entry_id (payload r') = k) (map snd al) = []"
      by (auto simp: filter_empty_conv)
    then show ?thesis using p True r Cons.prems(2) by simp
  next
    case False
    then have "map_of al k = Some r" using Cons.prems(3) p by simp
    moreover have "entry_id (payload r') \<noteq> k" using Cons.prems(2) p False by auto
    ultimately show ?thesis using Cons.IH Cons.prems(1,2) p by simp
  qed
qed

lemma keyed_ids:
  assumes "\<forall>(k, r) \<in> set al. entry_id (payload r) = k"
  shows "map (\<lambda>r. entry_id (payload r)) (map snd al) = map fst al"
  using assms by (induction al) auto

text \<open>
  Claim C4. The identity on which \<^verbatim>\<open>_merge_results\<close> works is \<^verbatim>\<open>payload["entry_id"]\<close>. In
  its output every such id occurs at most once; the output is no longer than the two
  inputs together; and for an id that occurs in both inputs the output holds exactly one
  entry, which is a vector result (the last one with that id, when the vector results
  repeat it), so its score is the score of the vector result and no database result
  replaces it.
\<close>

theorem merge_results_dedup:
  "distinct (map (\<lambda>r. entry_id (payload r)) (merge_results vector_results db_results))
   \<and> length (merge_results vector_results db_results)
        \<le> length vector_results + length db_results
   \<and> (\<forall>k. k \<in> (\<lambda>r. entry_id (payload r)) ` set vector_results
          \<and> k \<in> (\<lambda>r. entry_id (payload r)) ` set db_results
        \<longrightarrow> (\<exists>v \<in> set vector_results.
               filter (\<lambda>r. entry_id (payload r) = k) (merge_results vector_results db_results)
                 = [v]
               \<and> v = last (filter (\<lambda>r. entry_id (payload r) = k) vector_results)
               \<and> (\<forall>r \<in> set (merge_results vector_results db_results).
                     entry_id (payload r) = k \<longrightarrow> score r = score v)))"
proof -
  let ?id = "\<lambda>r. entry_id (payload r)"
  let ?mv = "merge_vector [] vector_results"
  let ?md = "merge_db ?mv db_results"
  have mv: "distinct (map fst ?mv) \<and> (\<forall>(k, r) \<in> set ?mv. ?id r = k)
       \<and> length ?mv \<le> length ([]::(string \<times> candidate) list) + length vector_results"
    by (rule merge_vector_inv) simp_all
  then have md: "distinct (map fst ?md) \<and> (\<forall>(k, r) \<in> set ?md. ?id r = k)
       \<and> length ?md \<le> length ?mv + length db_results"
    by (intro merge_db_inv) simp_all
  have e: "map ?id (map snd ?md) = map fst ?md"
    using md by (intro keyed_ids) blast
  have "distinct (map fst ?md)" using md by blast
  then have "distinct (map ?id (map snd ?md))" by (simp only: e)
  then have c1: "distinct (map ?id (merge_results vector_results db_results))"
    by (simp only: merge_results_def)
  have c2: "length (merge_results vector_results db_results)
        \<le> length vector_results + length db_results"
    using mv md by (simp add: merge_results_def)
  have c3: "\<forall>k. k \<in> ?id ` set vector_results \<and> k \<in> ?id ` set db_results
        \<longrightarrow> (\<exists>v \<in> set vector_results.
               filter (\<lambda>r. ?id r = k) (merge_results vector_results db_results) = [v]
               \<and> v = last (filter (\<lambda>r. ?id r = k) vector_results)
               \<and> (\<forall>r \<in> set (merge_results vector_results db_results).
                     ?id r = k \<longrightarrow> score r = score v))"
  proof (intro allI impI)
    fix k
    assume k: "k \<in> ?id ` set vector_results \<and> k \<in> ?id ` set db_results"
    define v where "v = last (filter (\<lambda>r. ?id r = k) vector_results)"
    have ne: "filter (\<lambda>r. ?id r = k) vector_results \<noteq> []"
      using k by (auto simp: filter_empty_conv)
    then have "v \<in> set (filter (\<lambda>r. ?id r = k) vector_results)"
      unfolding v_def by (rule last_in_set)
    then have vin: "v \<in> set vector_results" by simp
    have "map_of ?mv k = Some v" using k by (simp add: merge_vector_map_of v_def)
    then have "map_of ?md k = Some v" by (rule merge_db_keeps)
    then have f: "filter (\<lambda>r. ?id r = k) (merge_results vector_results db_results) = [v]"
      using md keyed_filter[of ?md k v] by (simp add: merge_results_def)
    have "\<forall>r \<in> set (merge_results vector_results db_results). ?id r = k \<longrightarrow> score r = score v"
    proof (intro ballI impI)
      fix r assume "r \<in> set (merge_results vector_results db_results)" "?id r = k"
      then have "r \<in> set (filter (\<lambda>r. ?id r = k) (merge_results vector_results db_results))"
        by simp
      then show "score r = score v" unfolding f by simp
    qed
    with vin f show "\<exists>v \<in> set vector_results.
               filter (\<lambda>r. ?id r = k) (merge_results vector_results db_results) = [v]
               \<and> v = last (filter (\<lambda>r. ?id r = k) vector_results)
               \<and> (\<forall>r \<in> set (merge_results vector_results db_results).
                     ?id r = k \<longrightarrow> score r = score v)"
      unfolding v_def by blast
  qed
  from c1 c2 c3 show ?thesis by blast
qed


theorem merge_results_dedup_witness:
  "merge_results [scored_e2] [unscored_candidate, centre_candidate]
     = [scored_e2, centre_candidate]
   \<and> ''e2'' \<in> (\<lambda>r. entry_id (payload r)) ` set [scored_e2]
   \<and> ''e2'' \<in> (\<lambda>r. entry_id (payload r)) ` set [unscored_candidate, centre_candidate]
   \<and> (\<exists>v \<in> set [scored_e2].
         filter (\<lambda>r. entry_id (payload r) = ''e2'')
           (merge_results [scored_e2] [unscored_candidate, centre_candidate]) = [v]
         \<and> score v = 0.9)"
proof -
  have m: "merge_results [scored_e2] [unscored_candidate, centre_candidate]
     = [scored_e2, centre_candidate]"
    by (simp add: merge_results_def scored_e2_def ex_defs)
  have h1: "''e2'' \<in> (\<lambda>r. entry_id (payload r)) ` set [scored_e2]"
    by (simp add: scored_e2_def ex_defs)
  have h2: "''e2'' \<in> (\<lambda>r. entry_id (payload r)) ` set [unscored_candidate, centre_candidate]"
    by (simp add: ex_defs)
  have s: "score scored_e2 = 0.9" by (simp add: scored_e2_def)
  have "\<exists>v \<in> set [scored_e2].
         filter (\<lambda>r. entry_id (payload r) = ''e2'')
           (merge_results [scored_e2] [unscored_candidate, centre_candidate]) = [v]
         \<and> score v = 0.9"
    using merge_results_dedup[of "[scored_e2]" "[unscored_candidate, centre_candidate]"]
      h1 h2 s by fastforce
  with m h1 h2 show ?thesis by blast
qed

section \<open>Properties of retrieve\<close>

text \<open>
  Claim C8. For \<open>top_k \<ge> 0\<close>, whatever \<^verbatim>\<open>retrieve\<close> returns has at most \<open>top_k\<close> entries;
  when both retrievals and the reranking succeed it returns the first \<open>top_k\<close> entries of
  the reranked list, which is the whole list, unpadded, when that has no more than
  \<open>top_k\<close> entries; and when both retrievals return no candidate it returns the empty
  list and not an error.
\<close>

theorem retrieve_top_k:
  assumes "0 \<le> top_k"
  shows "(\<forall>out. retrieve vs db q top_k = Inr out \<longrightarrow> length out \<le> nat top_k)
       \<and> (\<forall>vr dr rr.
             vector_retrieval vs q (top_k * 2) = Inr vr
             \<and> db_retrieval db q (top_k * 2) = Inr dr
             \<and> rerank (merge_results vr dr) q = Inr rr
             \<longrightarrow> retrieve vs db q top_k = Inr (take (nat top_k) rr)
                 \<and> (length rr \<le> nat top_k \<longrightarrow> retrieve vs db q top_k = Inr rr))
       \<and> (vector_retrieval vs q (top_k * 2) = Inr []
             \<and> db_retrieval db q (top_k * 2) = Inr []
             \<longrightarrow> retrieve vs db q top_k = Inr [])"
proof -
  have a: "\<forall>out. retrieve vs db q top_k = Inr out \<longrightarrow> length out \<le> nat top_k"
    using assms
    by (auto simp: retrieve_def slice_to_def Let_def split: sum.splits if_splits)
  have b: "\<forall>vr dr rr.
             vector_retrieval vs q (top_k * 2) = Inr vr
             \<and> db_retrieval db q (top_k * 2) = Inr dr
             \<and> rerank (merge_results vr dr) q = Inr rr
             \<longrightarrow> retrieve vs db q top_k = Inr (take (nat top_k) rr)
                 \<and> (length rr \<le> nat top_k \<longrightarrow> retrieve vs db q top_k = Inr rr)"
  proof (intro allI impI)
    fix vr dr rr
    assume h: "vector_retrieval vs q (top_k * 2) = Inr vr
             \<and> db_retrieval db q (top_k * 2) = Inr dr
             \<and> rerank (merge_results vr dr) q = Inr rr"
    have r: "retrieve vs db q top_k = Inr (take (nat top_k) rr)"
    proof (cases "merge_results vr dr = []")
      case True
      then have "rr = []" using h by (simp add: rerank_def)
      then show ?thesis using h True by (simp add: retrieve_def)
    next
      case False
      then show ?thesis using h assms by (simp add: retrieve_def slice_to_def)
    qed
    then show "retrieve vs db q top_k = Inr (take (nat top_k) rr)
                 \<and> (length rr \<le> nat top_k \<longrightarrow> retrieve vs db q top_k = Inr rr)"
      by simp
  qed
  have c: "vector_retrieval vs q (top_k * 2) = Inr []
             \<and> db_retrieval db q (top_k * 2) = Inr []
             \<longrightarrow> retrieve vs db q top_k = Inr []"
    by (simp add: retrieve_def merge_results_def)
  from a b c show ?thesis by blast
qed

theorem retrieve_top_k_witness:
  "(0::int) \<le> 1
   \<and> retrieve (connected_store [centre_candidate]) (session_with [(example_entry, None, None)])
        example_intent 1 = Inr [centre_candidate\<lparr>score := 0.88\<rparr>]
   \<and> length [centre_candidate\<lparr>score := 0.88\<rparr>] \<le> nat 1
   \<and> retrieve (connected_store []) (session_with []) example_intent 1 = Inr []"
proof -
  have h: "(0::int) \<le> 1" by simp
  have r: "retrieve (connected_store [centre_candidate])
        (session_with [(example_entry, None, None)]) example_intent 1
      = Inr [centre_candidate\<lparr>score := 0.88\<rparr>]"
    by (simp add: retrieve_def vector_retrieval_def search_def db_retrieval_def
          geo_conditions_def time_conditions_def category_conditions_def
          format_row_def format_display_time_def format_geo_point_def
          connected_store_def session_with_def merge_results_def slice_to_def
          score_defs ex_defs)
  have e1: "vector_retrieval (connected_store []) example_intent (1 * 2) = Inr []"
    by (simp add: vector_retrieval_def search_def geo_conditions_def time_conditions_def
          category_conditions_def connected_store_def ex_defs)
  have e2: "db_retrieval (session_with []) example_intent (1 * 2) = Inr []"
    by (simp add: db_retrieval_def session_with_def ex_defs)
  note t = retrieve_top_k[OF h, of "connected_store [centre_candidate]"
             "session_with [(example_entry, None, None)]" example_intent]
  have l: "length [centre_candidate\<lparr>score := 0.88\<rparr>] \<le> nat 1"
    using t r by blast
  have e: "retrieve (connected_store []) (session_with []) example_intent 1 = Inr []"
    using retrieve_top_k[OF h, of "connected_store []" "session_with []" example_intent] e1 e2
    by blast
  from h r l e show ?thesis by blast
qed

text \<open>
  Claim C9. When the vector retrieval or the database retrieval raises, \<^verbatim>\<open>retrieve\<close>
  raises an exception of one of them: it does not return a list, in particular not the
  empty one. A vector store that was never connected makes \<^verbatim>\<open>retrieve\<close> raise
  \<^verbatim>\<open>Exception("Qdrant client not connected")\<close>.
\<close>

theorem retrieve_propagates_failure:
  assumes "vector_retrieval vs q (top_k * 2) = Inl e \<or> db_retrieval db q (top_k * 2) = Inl e"
  shows "(\<exists>e'. retrieve vs db q top_k = Inl e'
               \<and> (vector_retrieval vs q (top_k * 2) = Inl e'
                    \<or> db_retrieval db q (top_k * 2) = Inl e'))
       \<and> retrieve vs db q top_k \<noteq> Inr []
       \<and> (client vs = None
            \<longrightarrow> retrieve vs db q top_k = Inl (Exception ''Qdrant client not connected''))"
proof -
  have a: "\<exists>e'. retrieve vs db q top_k = Inl e'
               \<and> (vector_retrieval vs q (top_k * 2) = Inl e'
                    \<or> db_retrieval db q (top_k * 2) = Inl e')"
    using assms by (auto simp: retrieve_def split: sum.splits)
  then have b: "retrieve vs db q top_k \<noteq> Inr []" by auto
  have c: "client vs = None
            \<longrightarrow> retrieve vs db q top_k = Inl (Exception ''Qdrant client not connected'')"
    by (simp add: retrieve_def vector_retrieval_def search_def Let_def)
  from a b c show ?thesis by blast
qed


theorem retrieve_propagates_failure_witness:
  "vector_retrieval disconnected_store example_intent (5 * 2)
     = Inl (Exception ''Qdrant client not connected'')
   \<and> retrieve disconnected_store (session_with []) example_intent 5
       = Inl (Exception ''Qdrant client not connected'')
   \<and> retrieve disconnected_store (session_with []) example_intent 5 \<noteq> Inr []"
proof -
  have h: "vector_retrieval disconnected_store example_intent (5 * 2)
     = Inl (Exception ''Qdrant client not connected'')"
    by (simp add: vector_retrieval_def search_def disconnected_store_def ex_defs)
  then have h': "vector_retrieval disconnected_store example_intent (5 * 2)
       = Inl (Exception ''Qdrant client not connected'')
     \<or> db_retrieval (session_with []) example_intent (5 * 2)
       = Inl (Exception ''Qdrant client not connected'')" by blast
  have c: "client disconnected_store = None" by (simp add: disconnected_store_def)
  note t = retrieve_propagates_failure[OF h']
  from t c h show ?thesis by blast
qed

end
